theory Spec2Isabelle
  imports Complex_Main "HOL-Library.Sublist" "HOL-Library.Char_ord" "HOL-Library.List_Lexorder"
    "HOL-Library.Multiset"
begin

section \<open>ffchapter: the chapter-encode job orchestrator\<close>

text \<open>
  A shallow embedding of \<^verbatim>\<open>src/ffchapter.py\<close>. Conventions:
  \<^item> Python \<^verbatim>\<open>float\<close> values are idealised as \<^typ>\<open>real\<close>: sums, differences and
    quotients are exact, and rounding, infinities and NaN are outside the model.
  \<^item> A raised exception or \<^verbatim>\<open>exit(1)\<close> is a value of type \<open>error\<close>; a function that can
    raise returns \<open>error + 'a\<close>, and \<open>main\<close> returns \<open>error option\<close> (with \<open>None\<close> for a normal
    return, that is exit status 0) next to the world it leaves behind.
  \<^item> Library functions whose text is not part of the repository (\<^verbatim>\<open>float()\<close> on a string,
    \<^verbatim>\<open>json.dump\<close>, \<^verbatim>\<open>json.load\<close>, \<^verbatim>\<open>datetime.strptime\<close>, \<^verbatim>\<open>glob.glob\<close>) are parameters,
    collected in the record \<open>pylib\<close>. Answers of the outside world (the working directory, the clock,
    subprocess results, the user's reply) are fields of the record \<open>env\<close>.
  \<^item> Paths follow \<^verbatim>\<open>posixpath\<close>; console output is not part of the state.
\<close>

subsection \<open>Errors\<close>

datatype error =
    Exit nat
  | KeyError
  | IndexError
  | ValueError
  | FileNotFoundError
  | OSError
  | ZeroDivisionError
  | OverflowError
  | EOFError
  | TypeError

subsection \<open>String and path helpers\<close>

text \<open>\<^verbatim>\<open>s.replace(old, new)\<close> for one-character \<^verbatim>\<open>old\<close> and \<^verbatim>\<open>new\<close>.\<close>

definition py_replace :: "char \<Rightarrow> char \<Rightarrow> string \<Rightarrow> string" where
  "py_replace old new s = map (\<lambda>c. if c = old then new else c) s"

text \<open>
  \<^verbatim>\<open>s.split(sep)\<close> for a non-empty separator: the pieces between the non-overlapping
  occurrences of \<^verbatim>\<open>sep\<close>, found from the left. \<open>acc\<close> holds the current piece reversed.
  (Python raises ValueError for an empty separator; the program only splits at the
  literals \<^verbatim>\<open>"fps="\<close>, \<^verbatim>\<open>"time="\<close>, \<^verbatim>\<open>" "\<close> and \<^verbatim>\<open>":"\<close>.)
\<close>

fun split_from :: "string \<Rightarrow> string \<Rightarrow> string \<Rightarrow> string list" where
  "split_from sep acc [] = [rev acc]"
| "split_from sep acc (c # cs) =
     (if prefix sep (c # cs)
      then rev acc # split_from sep [] (drop (length sep - 1) cs)
      else split_from sep (c # acc) cs)"

definition py_split :: "string \<Rightarrow> string \<Rightarrow> string list" where
  "py_split sep s = split_from sep [] s"

text \<open>\<^verbatim>\<open>xs[i]\<close> for a non-negative index: IndexError out of range.\<close>

definition py_index :: "'a list \<Rightarrow> nat \<Rightarrow> error + 'a" where
  "py_index xs i = (if i < length xs then Inr (xs ! i) else Inl IndexError)"

text \<open>\<^verbatim>\<open>posixpath.join(a, b)\<close>.\<close>

definition path_join :: "string \<Rightarrow> string \<Rightarrow> string" where
  "path_join a b =
     (if prefix ''/'' b then b
      else if a = [] \<or> suffix ''/'' a then a @ b
      else a @ ''/'' @ b)"

subsection \<open>Data model\<close>

text \<open>
  One entry of \<^verbatim>\<open>chapters\<close> in the metadata tool's JSON output. \<open>tags_title\<close> is
  \<^verbatim>\<open>chapter['tags']['title']\<close>, with \<open>None\<close> when the key is missing; the two times are
  the decimal strings the tool prints.
\<close>

record chapter_entry =
  tags_title :: "string option"
  start_time :: string
  end_time :: string

text \<open>The dictionary that \<^verbatim>\<open>generate_ffmpeg_commands\<close> builds for one chapter.\<close>

record work_item =
  title :: string
  length_in_seconds :: real
  command :: "string list"

text \<open>
  The dictionary \<^verbatim>\<open>ffjob_info\<close>. \<^verbatim>\<open>main\<close> creates it with the key \<^verbatim>\<open>chapters\<close> only;
  \<^verbatim>\<open>save_ffjob_info\<close> adds the other two keys, so they are optional here.
\<close>

record ffjob_info =
  chapters :: "work_item list"
  total_length_in_seconds :: "real option"
  executed_datetime :: "string option"

text \<open>The metadata tool's answer: \<^verbatim>\<open>chapters\<close> and \<^verbatim>\<open>format.duration\<close>.\<close>

record probe_output =
  probe_chapters :: "chapter_entry list"
  format_duration :: string

text \<open>
  Library functions taken as parameters; \<open>None\<close> stands for the exception they raise.
  \<open>glob d fs pattern\<close> is \<^verbatim>\<open>glob(pattern)\<close> called in the working directory \<open>d\<close> over the
  files \<open>fs\<close>: the matching paths, in the order of enumeration. The program hands its
  pattern over as it is, so what \<^verbatim>\<open>*\<close>, \<^verbatim>\<open>?\<close> and \<^verbatim>\<open>[\<close> mean anywhere in it, the
  directory part included, is up to \<open>glob\<close>.
\<close>

record pylib =
  py_float :: "string \<Rightarrow> real option"
  json_dump :: "ffjob_info \<Rightarrow> string"
  json_load :: "string \<Rightarrow> ffjob_info option"
  strptime :: "string \<Rightarrow> real option"
  glob :: "string \<Rightarrow> (string \<times> string) list \<Rightarrow> string \<Rightarrow> string list"

text \<open>
  What the outside world answers during one run.
  \<^item> \<open>cwd\<close>: \<^verbatim>\<open>os.getcwd()\<close>;
  \<^item> \<open>now_str\<close>: \<^verbatim>\<open>datetime.now().strftime("%Y-%m-%d %H:%M:%S")\<close>; \<open>now\<close>: the clock in seconds;
  \<^item> \<open>write_denied p\<close>: creating \<open>p\<close> or opening it for writing raises OSError;
  \<^item> \<open>popen_fails cmd\<close>: \<^verbatim>\<open>subprocess.Popen(cmd)\<close> raises (the engine binary is missing);
  \<^item> \<open>ffprobe p\<close>: the parsed output of the metadata tool on \<open>p\<close>, \<open>None\<close> for a non-zero exit
    or output that is not JSON;
  \<^item> \<open>concat_run cmd\<close>: the exit status of the synchronous concatenation call, \<open>None\<close> when
    the binary cannot be started;
  \<^item> \<open>vmaf_score\<close>: the score read back from the quality tool, \<open>None\<close> for any failure;
  \<^item> \<open>stdin_line\<close>: the line \<^verbatim>\<open>input()\<close> returns, \<open>None\<close> at end of file.
\<close>

record env =
  cwd :: string
  now_str :: string
  now :: real
  write_denied :: "string \<Rightarrow> bool"
  popen_fails :: "string list \<Rightarrow> bool"
  ffprobe :: "string \<Rightarrow> probe_output option"
  concat_run :: "string list \<Rightarrow> nat option"
  vmaf_score :: "real option"
  stdin_line :: "string option"

text \<open>
  The state the program changes: the files (path and content, in the order the operating
  system enumerates them) and the detached processes started so far (command and log path).
\<close>

record world =
  files :: "(string \<times> string) list"
  procs :: "(string list \<times> string) list"

definition get_abs_path :: "env \<Rightarrow> string \<Rightarrow> string" where
  "get_abs_path e relative_path = path_join (cwd e) relative_path"

subsection \<open>Chapter planner and command builder\<close>

definition base_command ::
  "env \<Rightarrow> chapter_entry \<Rightarrow> string \<Rightarrow> string \<Rightarrow> string \<Rightarrow> string \<Rightarrow> string \<Rightarrow> string list" where
  "base_command e ch input_file svt_av1_params preset crf output_file =
     [''ffmpeg'',
      ''-ss'', start_time ch,
      ''-to'', end_time ch,
      ''-i'', get_abs_path e input_file,
      ''-c:v'', ''libsvtav1'',
      ''-preset'', preset,
      ''-crf'', crf,
      ''-g'', ''360'',
      ''-pix_fmt'', ''yuv420p10le'',
      ''-svtav1-params'', svt_av1_params,
      ''-c:a'', ''libopus'',
      ''-ac'', ''6'',
      ''-b:a'', ''256K'',
      ''-vbr:a'', ''2'',
      ''-sn'',
      ''-reset_timestamps'', ''1'',
      output_file]"

text \<open>
  The body of the loop of \<^verbatim>\<open>generate_ffmpeg_commands\<close> for one chapter. The input file
  is the command-line argument, \<open>None\<close> when it was left out (then joining it to the
  working directory raises TypeError).
\<close>

definition chapter_command ::
  "pylib \<Rightarrow> env \<Rightarrow> string option \<Rightarrow> string \<Rightarrow> string \<Rightarrow> string \<Rightarrow> chapter_entry
     \<Rightarrow> error + work_item" where
  "chapter_command lib e input_file svt_av1_params preset crf ch =
     (case tags_title ch of
        None \<Rightarrow> Inl KeyError
      | Some raw \<Rightarrow>
          let ttl = py_replace CHR '' '' CHR ''_'' raw;
              tmp_dir = get_abs_path e ''tmp'';
              output_file = path_join tmp_dir (ttl @ ''.mkv'')
          in (case input_file of
                None \<Rightarrow> Inl TypeError
              | Some f \<Rightarrow>
                  let cmd = base_command e ch f svt_av1_params preset crf output_file
                  in (case py_float lib (end_time ch) of
                        None \<Rightarrow> Inl ValueError
                      | Some en \<Rightarrow>
                          (case py_float lib (start_time ch) of
                             None \<Rightarrow> Inl ValueError
                           | Some st \<Rightarrow>
                               Inr \<lparr>title = ttl, length_in_seconds = en - st, command = cmd\<rparr>))))"

fun generate_ffmpeg_commands ::
  "pylib \<Rightarrow> env \<Rightarrow> chapter_entry list \<Rightarrow> string option \<Rightarrow> string \<Rightarrow> string \<Rightarrow> string
     \<Rightarrow> error + work_item list" where
  "generate_ffmpeg_commands lib e [] input_file svt_av1_params preset crf = Inr []"
| "generate_ffmpeg_commands lib e (ch # chs) input_file svt_av1_params preset crf =
     (case chapter_command lib e input_file svt_av1_params preset crf ch of
        Inl err \<Rightarrow> Inl err
      | Inr item \<Rightarrow>
          (case generate_ffmpeg_commands lib e chs input_file svt_av1_params preset crf of
             Inl err \<Rightarrow> Inl err
           | Inr items \<Rightarrow> Inr (item # items)))"

subsection \<open>Files\<close>

text \<open>\<^verbatim>\<open>open(p, 'w')\<close> followed by writing \<open>c\<close>: the file is replaced, or created last.\<close>

fun fs_write :: "string \<Rightarrow> string \<Rightarrow> (string \<times> string) list \<Rightarrow> (string \<times> string) list" where
  "fs_write p c [] = [(p, c)]"
| "fs_write p c ((q, d) # fs) = (if q = p then (p, c) # fs else (q, d) # fs_write p c fs)"

text \<open>\<^verbatim>\<open>open(p, 'a')\<close> with nothing written: an absent file is created empty.\<close>

definition fs_touch :: "string \<Rightarrow> (string \<times> string) list \<Rightarrow> (string \<times> string) list" where
  "fs_touch p fs = (case map_of fs p of None \<Rightarrow> fs @ [(p, [])] | Some c \<Rightarrow> fs)"

text \<open>
  Text mode reads with universal newlines: \<^verbatim>\<open>\r\n\<close> and a lone \<^verbatim>\<open>\r\<close> arrive as
  \<^verbatim>\<open>\n\<close>. \<^verbatim>\<open>readlines()\<close> cuts after every \<^verbatim>\<open>\n\<close> and keeps it; an empty file has no line.
\<close>

fun universal_newlines :: "string \<Rightarrow> string" where
  "universal_newlines [] = []"
| "universal_newlines [c] = (if c = CHR 0x0D then [CHR 0x0A] else [c])"
| "universal_newlines (c # d # cs) =
     (if c = CHR 0x0D \<and> d = CHR 0x0A then CHR 0x0A # universal_newlines cs
      else if c = CHR 0x0D then CHR 0x0A # universal_newlines (d # cs)
      else c # universal_newlines (d # cs))"

fun lines_from :: "string \<Rightarrow> string \<Rightarrow> string list" where
  "lines_from acc [] = (if acc = [] then [] else [rev acc])"
| "lines_from acc (c # cs) =
     (if c = CHR 0x0A then rev (c # acc) # lines_from [] cs else lines_from (c # acc) cs)"

definition readlines :: "string \<Rightarrow> string list" where
  "readlines content = lines_from [] (universal_newlines content)"

text \<open>
  \<^verbatim>\<open>posixpath.normpath\<close>: empty and \<^verbatim>\<open>.\<close> components are dropped, \<^verbatim>\<open>..\<close> removes the
  component before it, and exactly two leading slashes are kept. \<open>norm_comps\<close> is its loop,
  with the components kept so far in reverse.
\<close>

fun join_slash :: "string list \<Rightarrow> string" where
  "join_slash [] = []"
| "join_slash [c] = c"
| "join_slash (c # d # cs) = c @ ''/'' @ join_slash (d # cs)"

fun norm_comps :: "bool \<Rightarrow> string list \<Rightarrow> string list \<Rightarrow> string list" where
  "norm_comps initial_slashes new_comps [] = rev new_comps"
| "norm_comps initial_slashes new_comps (part # parts) =
     (if part = [] \<or> part = ''.'' then norm_comps initial_slashes new_comps parts
      else if part = ''..'' then
        (if (\<not> initial_slashes \<and> new_comps = []) \<or> (new_comps \<noteq> [] \<and> hd new_comps = ''..'')
         then norm_comps initial_slashes (part # new_comps) parts
         else if new_comps \<noteq> [] then norm_comps initial_slashes (tl new_comps) parts
         else norm_comps initial_slashes new_comps parts)
      else norm_comps initial_slashes (part # new_comps) parts)"

definition normpath :: "string \<Rightarrow> string" where
  "normpath path =
     (if path = [] then ''.''
      else
        let initial_slashes =
              (if prefix ''//'' path \<and> \<not> prefix ''///'' path then 2
               else if prefix ''/'' path then 1 else (0::nat));
            joined = join_slash (norm_comps (0 < initial_slashes) [] (py_split ''/'' path));
            result = replicate initial_slashes CHR ''/'' @ joined
        in if result = [] then ''.'' else result)"

text \<open>\<^verbatim>\<open>os.path.abspath\<close>: a relative path is joined to the working directory first.\<close>

definition abspath :: "env \<Rightarrow> string \<Rightarrow> string" where
  "abspath e path = normpath (if prefix ''/'' path then path else path_join (cwd e) path)"

subsection \<open>Helper functions\<close>

definition ensure_directories_exist :: "env \<Rightarrow> error option" where
  "ensure_directories_exist e =
     (if write_denied e (get_abs_path e ''tmp'') then Some OSError
      else if write_denied e (get_abs_path e ''log'') then Some OSError
      else None)"

text \<open>\<^verbatim>\<open>str.lower()\<close> on the ASCII letters.\<close>

definition py_lower :: "string \<Rightarrow> string" where
  "py_lower s =
     map (\<lambda>c. if CHR ''A'' \<le> c \<and> c \<le> CHR ''Z'' then char_of (of_char c + (32::nat)) else c) s"

definition user_confirmation :: "env \<Rightarrow> error + bool" where
  "user_confirmation e =
     (case stdin_line e of
        None \<Rightarrow> Inl EOFError
      | Some line \<Rightarrow>
          let user_input = py_lower line
          in if user_input \<in> set [''yes'', ''y''] then Inr True else Inr False)"

text \<open>
  \<^verbatim>\<open>cleanup_directories\<close>: every file below \<^verbatim>\<open>log\<close>, \<^verbatim>\<open>tmp\<close> and \<^verbatim>\<open>__pycache__\<close> is
  removed, then \<^verbatim>\<open>ffjob.json\<close>. The three folders themselves stay.
\<close>

definition cleanup_directories :: "env \<Rightarrow> world \<Rightarrow> world" where
  "cleanup_directories e w =
     (let below = (\<lambda>folder p. prefix (get_abs_path e folder @ ''/'') p);
          fs1 = filter (\<lambda>(p, c). \<not> below ''log'' p \<and> \<not> below ''tmp'' p \<and> \<not> below ''__pycache__'' p)
                  (files w);
          ffjob_json_path = get_abs_path e ''ffjob.json''
      in w\<lparr>files := filter (\<lambda>(p, c). p \<noteq> ffjob_json_path) fs1\<rparr>)"

text \<open>\<^verbatim>\<open>verify_chapter_files\<close> globs the relative pattern \<^verbatim>\<open>tmp/*.mkv\<close>.\<close>

definition verify_chapter_files :: "pylib \<Rightarrow> env \<Rightarrow> world \<Rightarrow> error option" where
  "verify_chapter_files lib e w =
     (let found = glob lib (cwd e) (files w) ''tmp/*.mkv''
      in if found = [] then Some (Exit 1) else None)"

subsection \<open>Finalizer\<close>

text \<open>
  \<^verbatim>\<open>run_vmaf\<close>: every failure inside its \<^verbatim>\<open>try\<close> ends in \<^verbatim>\<open>exit(1)\<close>; a missing input
  file argument (\<open>None\<close>) fails when the command is started.
\<close>

definition run_vmaf :: "env \<Rightarrow> string option \<Rightarrow> string \<Rightarrow> error + real" where
  "run_vmaf e original_file encoded_file =
     (case original_file of
        None \<Rightarrow> Inl (Exit 1)
      | Some f \<Rightarrow> (case vmaf_score e of None \<Rightarrow> Inl (Exit 1) | Some score \<Rightarrow> Inr score))"

definition manifest_line :: "string \<Rightarrow> string" where
  "manifest_line formatted_path = ''file '' @ [CHR 0x27] @ formatted_path @ [CHR 0x27, CHR 0x0A]"

text \<open>
  The sorted list \<^verbatim>\<open>chapter_files\<close> of \<^verbatim>\<open>concatenate_chapters\<close>: the pattern is the
  absolute path of \<^verbatim>\<open>tmp\<close> joined with \<^verbatim>\<open>*.mkv\<close>, and \<^verbatim>\<open>sorted\<close> compares the paths as
  strings.
\<close>

definition chapter_files :: "pylib \<Rightarrow> env \<Rightarrow> world \<Rightarrow> string list" where
  "chapter_files lib e w =
     sort (glob lib (cwd e) (files w) (path_join (get_abs_path e ''tmp'') ''*.mkv''))"

text \<open>
  \<^verbatim>\<open>concatenate_chapters\<close>. Only \<^verbatim>\<open>CalledProcessError\<close> is caught there: a manifest that
  cannot be opened and a binary that cannot be started escape as they are.
\<close>

definition concatenate_chapters :: "pylib \<Rightarrow> env \<Rightarrow> world \<Rightarrow> error option \<times> world" where
  "concatenate_chapters lib e w =
     (let tmp_dir = get_abs_path e ''tmp'';
          concat_file_path = path_join tmp_dir ''concat.txt''
      in if write_denied e concat_file_path then (Some OSError, w)
         else
           let w1 = w\<lparr>files :=
                      fs_write concat_file_path
                        (concat (map (\<lambda>file_path. manifest_line (abspath e file_path))
                                   (chapter_files lib e w)))
                        (files w)\<rparr>;
               concat_command =
                 [''ffmpeg'', ''-f'', ''concat'', ''-safe'', ''0'', ''-i'', concat_file_path,
                  ''-c'', ''copy'', path_join (cwd e) ''output.mkv'']
           in (case concat_run e concat_command of
                 None \<Rightarrow> (Some FileNotFoundError, w1)
               | Some rc \<Rightarrow> if rc \<noteq> 0 then (Some (Exit 1), w1) else (None, w1)))"

subsection \<open>Metadata extraction\<close>

definition run_ffprobe :: "env \<Rightarrow> string option \<Rightarrow> error + probe_output" where
  "run_ffprobe e input_file =
     (case input_file of
        None \<Rightarrow> Inl (Exit 1)
      | Some f \<Rightarrow>
          (case ffprobe e (get_abs_path e f) of
             None \<Rightarrow> Inl (Exit 1)
           | Some json_output \<Rightarrow> Inr json_output))"

subsection \<open>Job launcher and job ledger\<close>

text \<open>
  \<^verbatim>\<open>execute_ffmpeg_command\<close>: any exception is caught and reported, so the function
  always returns. The log file is opened (and created) before the process is started.
\<close>

definition execute_ffmpeg_command :: "env \<Rightarrow> work_item \<Rightarrow> world \<Rightarrow> world" where
  "execute_ffmpeg_command e chapter_info w =
     (let log_file_path = path_join (get_abs_path e ''log'') (title chapter_info @ ''.log'')
      in if write_denied e log_file_path then w
         else
           let w1 = w\<lparr>files := fs_touch log_file_path (files w)\<rparr>
           in if popen_fails e (command chapter_info) then w1
              else w1\<lparr>procs := procs w1 @ [(command chapter_info, log_file_path)]\<rparr>)"

text \<open>
  \<^verbatim>\<open>save_ffjob_info\<close>: the two keys are set, the file is opened for writing and the
  dictionary dumped; an exception on the way is caught and only reported.
\<close>

definition save_ffjob_info :: "pylib \<Rightarrow> env \<Rightarrow> ffjob_info \<Rightarrow> string option \<Rightarrow> real \<Rightarrow> world \<Rightarrow> world" where
  "save_ffjob_info lib e info input_file total_length w =
     (let info' = info\<lparr>total_length_in_seconds := Some total_length,
                       executed_datetime := Some (now_str e)\<rparr>
      in if write_denied e (get_abs_path e ''ffjob.json'') then w
         else w\<lparr>files := fs_write (get_abs_path e ''ffjob.json'') (json_dump lib info') (files w)\<rparr>)"

definition get_ffjob_info :: "pylib \<Rightarrow> env \<Rightarrow> world \<Rightarrow> error + ffjob_info" where
  "get_ffjob_info lib e w =
     (case map_of (files w) (get_abs_path e ''ffjob.json'') of
        None \<Rightarrow> Inl (Exit 1)
      | Some content \<Rightarrow>
          (case json_load lib content of None \<Rightarrow> Inl (Exit 1) | Some info \<Rightarrow> Inr info))"

subsection \<open>Progress reporter\<close>

text \<open>
  \<^verbatim>\<open>parse_log_file\<close>: a missing file raises at \<^verbatim>\<open>open\<close>; on the last line,
  \<^verbatim>\<open>split(marker)[1]\<close> raises IndexError when the marker does not occur.
\<close>

definition parse_log_file :: "world \<Rightarrow> string \<Rightarrow> error + (string \<times> string)" where
  "parse_log_file w log_filename =
     (case map_of (files w) log_filename of
        None \<Rightarrow> Inl FileNotFoundError
      | Some content \<Rightarrow>
          let lines = readlines content
          in if lines \<noteq> [] then
               let last_line = last lines
               in (case py_index (py_split ''fps='' last_line) 1 of
                     Inl err \<Rightarrow> Inl err
                   | Inr after_fps \<Rightarrow>
                       (case py_index (py_split '' '' after_fps) 0 of
                          Inl err \<Rightarrow> Inl err
                        | Inr fps \<Rightarrow>
                            (case py_index (py_split ''time='' last_line) 1 of
                               Inl err \<Rightarrow> Inl err
                             | Inr after_time \<Rightarrow>
                                 (case py_index (py_split '' '' after_time) 0 of
                                    Inl err \<Rightarrow> Inl err
                                  | Inr time_encoded \<Rightarrow> Inr (fps, time_encoded)))))
             else Inr (''N/A'', ''00:00:00.00''))"

text \<open>
  \<^verbatim>\<open>int(x)\<close> on a float truncates towards zero. \<^verbatim>\<open>format_time_delta\<close> builds a
  \<^verbatim>\<open>timedelta\<close> from the whole seconds, which raises OverflowError beyond 999999999 days;
  the model returns the whole seconds that the printed string shows.
\<close>

definition py_int :: "real \<Rightarrow> int" where
  "py_int x = (if 0 \<le> x then \<lfloor>x\<rfloor> else \<lceil>x\<rceil>)"

definition format_time_delta :: "real \<Rightarrow> error + int" where
  "format_time_delta total_seconds =
     (let n = py_int total_seconds
      in if \<bar>n div 86400\<bar> > 999999999 then Inl OverflowError else Inr n)"

text \<open>
  \<^verbatim>\<open>sum(x * float(t) for x, t in zip([3600, 60, 1], time_encoded.split(":")))\<close>: the
  terms are added from the left, and the first string that is no number raises.
\<close>

fun sum_terms :: "pylib \<Rightarrow> real \<Rightarrow> (real \<times> string) list \<Rightarrow> error + real" where
  "sum_terms lib acc [] = Inr acc"
| "sum_terms lib acc ((x, t) # rest) =
     (case py_float lib t of
        None \<Rightarrow> Inl ValueError
      | Some v \<Rightarrow> sum_terms lib (acc + x * v) rest)"

definition encoded_time_seconds :: "pylib \<Rightarrow> string \<Rightarrow> error + real" where
  "encoded_time_seconds lib time_encoded =
     sum_terms lib 0 (zip [3600, 60, 1] (py_split '':'' time_encoded))"

text \<open>
  One pass of the loop of \<^verbatim>\<open>check_encoding_status\<close>: the speed, the encoded time as
  printed, and the encoded seconds added to the running total.
\<close>

definition chapter_status :: "pylib \<Rightarrow> env \<Rightarrow> world \<Rightarrow> work_item \<Rightarrow> error + (string \<times> string \<times> real)" where
  "chapter_status lib e w ch =
     (let log_filename = path_join (get_abs_path e ''log'') (title ch @ ''.log'')
      in (case parse_log_file w log_filename of
            Inl err \<Rightarrow> Inl err
          | Inr (fps, time_encoded) \<Rightarrow>
              (case encoded_time_seconds lib time_encoded of
                 Inl err \<Rightarrow> Inl err
               | Inr secs \<Rightarrow> Inr (fps, time_encoded, secs))))"

fun status_loop ::
  "pylib \<Rightarrow> env \<Rightarrow> world \<Rightarrow> real \<Rightarrow> work_item list \<Rightarrow> error + (real \<times> (string \<times> string) list)" where
  "status_loop lib e w running [] = Inr (running, [])"
| "status_loop lib e w running (ch # chs) =
     (case chapter_status lib e w ch of
        Inl err \<Rightarrow> Inl err
      | Inr (fps, time_encoded, secs) \<Rightarrow>
          (case status_loop lib e w (running + secs) chs of
             Inl err \<Rightarrow> Inl err
           | Inr (final, rs) \<Rightarrow> Inr (final, (fps, time_encoded) # rs)))"

text \<open>What a completed status report has printed.\<close>

record status_report =
  rows :: "(string \<times> string) list"
  total_encoded_time :: int
  total_video_time :: int
  completion :: real
  elapsed_time :: real

definition check_encoding_status :: "pylib \<Rightarrow> env \<Rightarrow> world \<Rightarrow> ffjob_info \<Rightarrow> error + status_report" where
  "check_encoding_status lib e w info =
     (case status_loop lib e w 0 (chapters info) of
        Inl err \<Rightarrow> Inl err
      | Inr (total_encoded_time_seconds, rs) \<Rightarrow>
          (case total_length_in_seconds info of
             None \<Rightarrow> Inl KeyError
           | Some total_video_length \<Rightarrow>
               (case format_time_delta total_encoded_time_seconds of
                  Inl err \<Rightarrow> Inl err
                | Inr enc \<Rightarrow>
                    (case format_time_delta total_video_length of
                       Inl err \<Rightarrow> Inl err
                     | Inr vid \<Rightarrow>
                         if total_video_length = 0 then Inl ZeroDivisionError
                         else
                           (case executed_datetime info of
                              None \<Rightarrow> Inl KeyError
                            | Some stamp \<Rightarrow>
                                (case strptime lib stamp of
                                   None \<Rightarrow> Inl ValueError
                                 | Some executed \<Rightarrow>
                                     Inr \<lparr>rows = rs,
                                          total_encoded_time = enc,
                                          total_video_time = vid,
                                          completion =
                                            total_encoded_time_seconds / total_video_length * 100,
                                          elapsed_time = now e - executed\<rparr>))))))"

subsection \<open>Main\<close>

text \<open>The dispatch loop of \<^verbatim>\<open>main\<close>: one launch attempt per work item, in order.\<close>

fun dispatch_all :: "env \<Rightarrow> work_item list \<Rightarrow> world \<Rightarrow> world" where
  "dispatch_all e [] w = w"
| "dispatch_all e (chapter_info # rest) w = dispatch_all e rest (execute_ffmpeg_command e chapter_info w)"

definition main ::
  "pylib \<Rightarrow> env \<Rightarrow> string option \<Rightarrow> string \<Rightarrow> string \<Rightarrow> string \<Rightarrow> bool \<Rightarrow> bool \<Rightarrow> world
     \<Rightarrow> error option \<times> world" where
  "main lib e input_file svt_av1_params preset crf info complete_flag w =
     (if complete_flag then
        (case verify_chapter_files lib e w of
           Some err \<Rightarrow> (Some err, w)
         | None \<Rightarrow>
             (case concatenate_chapters lib e w of
                (Some err, w1) \<Rightarrow> (Some err, w1)
              | (None, w1) \<Rightarrow>
                  (case run_vmaf e input_file ''output.mkv'' of
                     Inl err \<Rightarrow> (Some err, w1)
                   | Inr score \<Rightarrow>
                       (case user_confirmation e of
                          Inl err \<Rightarrow> (Some err, w1)
                        | Inr confirmed \<Rightarrow> if confirmed then (None, w1) else (None, w1)))))
      else if info then
        (case get_ffjob_info lib e w of
           Inl err \<Rightarrow> (Some err, w)
         | Inr ffjob \<Rightarrow>
             (case check_encoding_status lib e w ffjob of
                Inl err \<Rightarrow> (Some err, w)
              | Inr report \<Rightarrow> (None, w)))
      else
        (case ensure_directories_exist e of
           Some err \<Rightarrow> (Some err, w)
         | None \<Rightarrow>
             (case run_ffprobe e input_file of
                Inl err \<Rightarrow> (Some err, w)
              | Inr json_output \<Rightarrow>
                  (case py_float lib (format_duration json_output) of
                     None \<Rightarrow> (Some ValueError, w)
                   | Some total_length \<Rightarrow>
                       (case generate_ffmpeg_commands lib e (probe_chapters json_output)
                               input_file svt_av1_params preset crf of
                          Inl err \<Rightarrow> (Some err, w)
                        | Inr ffmpeg_commands \<Rightarrow>
                            let ffjob = \<lparr>chapters = ffmpeg_commands,
                                         total_length_in_seconds = None,
                                         executed_datetime = None\<rparr>;
                                w1 = dispatch_all e ffmpeg_commands w
                            in (None, save_ffjob_info lib e ffjob input_file total_length w1))))))"

subsection \<open>A decimal reading of \<^verbatim>\<open>float()\<close>\<close>

text \<open>
  Python's \<^verbatim>\<open>float()\<close> on plain decimal literals (an optional sign, digits, an optional
  fraction), used to run the model on concrete inputs. The theorems below hold for every
  \<open>py_float\<close>.
\<close>

fun digits_value :: "nat \<Rightarrow> string \<Rightarrow> nat option" where
  "digits_value acc [] = Some acc"
| "digits_value acc (c # cs) =
     (if CHR ''0'' \<le> c \<and> c \<le> CHR ''9''
      then digits_value (10 * acc + (of_char c - 48)) cs
      else None)"

definition dec_unsigned :: "string \<Rightarrow> real option" where
  "dec_unsigned s =
     (case py_split ''.'' s of
        [ip] \<Rightarrow> if ip = [] then None else map_option real (digits_value 0 ip)
      | [ip, fp] \<Rightarrow>
          if ip = [] \<and> fp = [] then None
          else (case (digits_value 0 ip, digits_value 0 fp) of
                  (Some a, Some b) \<Rightarrow> Some (real a + real b / 10 ^ length fp)
                | _ \<Rightarrow> None)
      | _ \<Rightarrow> None)"

definition dec_float :: "string \<Rightarrow> real option" where
  "dec_float s =
     (case s of
        [] \<Rightarrow> None
      | c # cs \<Rightarrow>
          if c = CHR ''-'' then map_option uminus (dec_unsigned cs)
          else if c = CHR ''+'' then dec_unsigned cs
          else dec_unsigned s)"

subsection \<open>A reading of \<^verbatim>\<open>glob.glob\<close>\<close>

text \<open>
  Python's \<^verbatim>\<open>glob\<close> on a pattern whose components are separated by single slashes, over
  the files of the model, used to run the model on concrete inputs. A directory is there
  when some path lies below it, and an entry whose path ends in a slash is a directory of
  its own. A component without \<^verbatim>\<open>*\<close>, \<^verbatim>\<open>?\<close> and \<^verbatim>\<open>[\<close> stands for itself; any other is
  matched against the entries of the directories found so far as \<^verbatim>\<open>fnmatch\<close> does:
  \<^verbatim>\<open>*\<close> is any text, \<^verbatim>\<open>?\<close> any character, \<^verbatim>\<open>[...]\<close> a set of characters and ranges
  (negated after \<^verbatim>\<open>!\<close>), a \<^verbatim>\<open>[\<close> that is never closed is itself, and entries starting
  with a dot are left out unless the component starts with one.
\<close>

definition has_magic :: "string \<Rightarrow> bool" where
  "has_magic s = (CHR ''*'' \<in> set s \<or> CHR ''?'' \<in> set s \<or> CHR ''['' \<in> set s)"

text \<open>The text after a \<^verbatim>\<open>[\<close>: where the closing bracket is, if there is one.\<close>

definition class_end :: "string \<Rightarrow> nat option" where
  "class_end p =
     (let j0 = (if take 1 p = ''!'' then 1 else 0);
          j1 = (if take 1 (drop j0 p) = '']'' then j0 + 1 else j0);
          rest = drop j1 p
      in if CHR '']'' \<in> set rest
         then Some (j1 + length (takeWhile (\<lambda>c. c \<noteq> CHR '']'') rest))
         else None)"

fun class_items :: "string \<Rightarrow> char \<Rightarrow> bool" where
  "class_items (a # b # c # rest) x =
     (if b = CHR ''-'' then (a \<le> x \<and> x \<le> c) \<or> class_items rest x
      else x = a \<or> class_items (b # c # rest) x)"
| "class_items (a # rest) x = (x = a \<or> class_items rest x)"
| "class_items [] x = False"

definition class_member :: "string \<Rightarrow> char \<Rightarrow> bool" where
  "class_member stuff x =
     (if take 1 stuff = ''!'' then \<not> class_items (drop 1 stuff) x else class_items stuff x)"

fun fn_match :: "string \<Rightarrow> string \<Rightarrow> bool" where
  "fn_match [] [] = True"
| "fn_match [] (x # xs) = False"
| "fn_match (c # p) [] = (c = CHR ''*'' \<and> fn_match p [])"
| "fn_match (c # p) (x # xs) =
     (if c = CHR ''*'' then fn_match p (x # xs) \<or> fn_match (c # p) xs
      else if c = CHR ''?'' then fn_match p xs
      else if c = CHR ''['' then
        (case class_end p of
           None \<Rightarrow> x = CHR ''['' \<and> fn_match p xs
         | Some j \<Rightarrow> class_member (take j p) x \<and> fn_match (drop (Suc j) p) xs)
      else x = c \<and> fn_match p xs)"

definition with_slash :: "string \<Rightarrow> string" where
  "with_slash d = (if suffix ''/'' d then d else d @ ''/'')"

definition listdir :: "(string \<times> string) list \<Rightarrow> string \<Rightarrow> string list" where
  "listdir fs d =
     remdups (filter (\<lambda>n. n \<noteq> [])
       (map (\<lambda>p. takeWhile (\<lambda>c. c \<noteq> CHR ''/'') (drop (length (with_slash d)) p))
          (filter (prefix (with_slash d)) (map fst fs))))"

definition lexists :: "(string \<times> string) list \<Rightarrow> string \<Rightarrow> bool" where
  "lexists fs p = (p \<in> set (map fst fs) \<or> list_ex (prefix (with_slash p)) (map fst fs))"

text \<open>
  One component of the pattern, applied to the paths found so far; \<open>base\<close> is the working
  directory, against which relative paths are looked up.
\<close>

definition glob_step :: "string \<Rightarrow> (string \<times> string) list \<Rightarrow> string list \<Rightarrow> string \<Rightarrow> string list" where
  "glob_step base fs dirs c =
     (if has_magic c
      then concat (map (\<lambda>d. map (path_join d)
                     (filter (\<lambda>n. fn_match c n \<and> (prefix ''.'' c \<or> \<not> prefix ''.'' n))
                        (listdir fs (path_join base d)))) dirs)
      else filter (\<lambda>p. lexists fs (path_join base p)) (map (\<lambda>d. path_join d c) dirs))"

definition demo_glob :: "string \<Rightarrow> (string \<times> string) list \<Rightarrow> string \<Rightarrow> string list" where
  "demo_glob base fs pattern =
     (if pattern = [] then []
      else if prefix ''/'' pattern
        then foldl (glob_step base fs) [''/''] (tl (py_split ''/'' pattern))
        else foldl (glob_step base fs) [[]] (py_split ''/'' pattern))"

subsection \<open>Concrete inputs\<close>

text \<open>
  A library and a world to run the model on: the decimal \<open>float\<close>, the reading of
  \<^verbatim>\<open>glob\<close> above, a working directory
  \<^verbatim>\<open>/w\<close> in which every write succeeds, and tools that all succeed. The two JSON functions
  know one ledger, \<open>demo_ledger\<close>, whose text is abbreviated, and \<open>strptime\<close> knows one time
  stamp, which it reads as second 0.
\<close>

definition demo_ledger :: ffjob_info where
  "demo_ledger =
     \<lparr>chapters = [\<lparr>title = ''Part_One'', length_in_seconds = 10, command = [''ffmpeg'']\<rparr>,
                  \<lparr>title = ''Part_Two'', length_in_seconds = 15, command = [''ffmpeg'']\<rparr>],
      total_length_in_seconds = Some 25,
      executed_datetime = Some ''2024-01-01 12:00:00''\<rparr>"

definition demo_lib :: pylib where
  "demo_lib =
     \<lparr>py_float = dec_float,
      json_dump = (\<lambda>d. if d = demo_ledger then ''{demo ledger}'' else ''{}''),
      json_load = (\<lambda>s. if s = ''{demo ledger}'' then Some demo_ledger else None),
      strptime = (\<lambda>s. if s = ''2024-01-01 12:00:00'' then Some 0 else None),
      glob = demo_glob\<rparr>"

definition demo_env :: env where
  "demo_env =
     \<lparr>cwd = ''/w'',
      now_str = ''2024-01-01 12:00:00'',
      now = 60,
      write_denied = (\<lambda>p. False),
      popen_fails = (\<lambda>c. False),
      ffprobe = (\<lambda>p. None),
      concat_run = (\<lambda>c. Some 0),
      vmaf_score = Some 95,
      stdin_line = Some ''yes''\<rparr>"

text \<open>The same world, with a metadata tool that answers \<open>out\<close> for every file.\<close>

definition demo_probe_env :: "probe_output \<Rightarrow> env" where
  "demo_probe_env out = demo_env\<lparr>ffprobe := (\<lambda>p. Some out)\<rparr>"

section \<open>Properties\<close>

subsection \<open>Chapter planner\<close>

lemma chapter_command_ok:
  assumes "tags_title ch = Some raw" "py_float lib (end_time ch) = Some en"
    "py_float lib (start_time ch) = Some st"
  shows "chapter_command lib e (Some f) svt preset crf ch =
     Inr \<lparr>title = map (\<lambda>c. if c = CHR '' '' then CHR ''_'' else c) raw,
          length_in_seconds = en - st,
          command = base_command e ch f svt preset crf
             (path_join (get_abs_path e ''tmp'')
                (map (\<lambda>c. if c = CHR '' '' then CHR ''_'' else c) raw @ ''.mkv''))\<rparr>"
  using assms by (simp add: chapter_command_def py_replace_def Let_def)

text \<open>
  Claim C4, as the code has it. For every chapter list in which each chapter carries a
  title and start and end times that \<^verbatim>\<open>float()\<close> accepts, and with the input file given,
  \<open>generate_ffmpeg_commands\<close> returns exactly one work item per chapter, in order; the
  item's title is the raw title with every space character replaced by an underscore and
  every other character (a tab or a newline too) kept, and its length is end minus start.
\<close>

theorem generate_ffmpeg_commands_items:
  assumes "\<forall>ch \<in> set chs. tags_title ch \<noteq> None \<and> py_float lib (start_time ch) \<noteq> None
             \<and> py_float lib (end_time ch) \<noteq> None"
  shows "\<exists>items. generate_ffmpeg_commands lib e chs (Some f) svt preset crf = Inr items
           \<and> length items = length chs
           \<and> list_all2 (\<lambda>ch item.
                 title item = map (\<lambda>c. if c = CHR '' '' then CHR ''_'' else c) (the (tags_title ch))
               \<and> length_in_seconds item
                   = the (py_float lib (end_time ch)) - the (py_float lib (start_time ch)))
               chs items"
  using assms
proof (induction chs)
  case Nil
  then show ?case by simp
next
  case (Cons ch chs)
  from Cons.prems obtain raw en st where ch: "tags_title ch = Some raw"
    "py_float lib (end_time ch) = Some en" "py_float lib (start_time ch) = Some st"
    by auto
  from Cons obtain items where items:
    "generate_ffmpeg_commands lib e chs (Some f) svt preset crf = Inr items"
    "length items = length chs"
    "list_all2 (\<lambda>ch item.
                 title item = map (\<lambda>c. if c = CHR '' '' then CHR ''_'' else c) (the (tags_title ch))
               \<and> length_in_seconds item
                   = the (py_float lib (end_time ch)) - the (py_float lib (start_time ch)))
               chs items"
    by auto
  show ?case
    using ch items by (simp add: chapter_command_ok)
qed

text \<open>
  The two-chapter source of the specification's end-to-end scenario: titles
  \<^verbatim>\<open>Part_One\<close> and \<^verbatim>\<open>Part_Two\<close>, lengths 10 and 15.
\<close>

theorem generate_ffmpeg_commands_items_witness:
  "\<exists>items. generate_ffmpeg_commands demo_lib demo_env
          [\<lparr>tags_title = Some ''Part One'', start_time = ''0.000000'', end_time = ''10.000000''\<rparr>,
           \<lparr>tags_title = Some ''Part Two'', start_time = ''10.000000'', end_time = ''25.000000''\<rparr>]
          (Some ''movie.mkv'') [] ''1'' ''16'' = Inr items
        \<and> length items = 2
        \<and> map title items = [''Part_One'', ''Part_Two'']
        \<and> map length_in_seconds items = [10, 15]"
proof -
  let ?chs = "[\<lparr>tags_title = Some ''Part One'', start_time = ''0.000000'', end_time = ''10.000000''\<rparr>,
               \<lparr>tags_title = Some ''Part Two'', start_time = ''10.000000'', end_time = ''25.000000''\<rparr>]"
  have h: "\<forall>ch \<in> set ?chs. tags_title ch \<noteq> None \<and> py_float demo_lib (start_time ch) \<noteq> None
             \<and> py_float demo_lib (end_time ch) \<noteq> None"
    by (simp add: demo_lib_def dec_float_def dec_unsigned_def py_split_def)
  from generate_ffmpeg_commands_items [OF h, of demo_env "''movie.mkv''" "[]" "''1''" "''16''"]
  obtain items where
    "generate_ffmpeg_commands demo_lib demo_env ?chs (Some ''movie.mkv'') [] ''1'' ''16'' = Inr items"
    "list_all2 (\<lambda>ch item.
                 title item = map (\<lambda>c. if c = CHR '' '' then CHR ''_'' else c) (the (tags_title ch))
               \<and> length_in_seconds item
                   = the (py_float demo_lib (end_time ch)) - the (py_float demo_lib (start_time ch)))
               ?chs items"
    by blast
  then show ?thesis
    by (auto simp: list_all2_Cons1 demo_lib_def dec_float_def dec_unsigned_def py_split_def)
qed

text \<open>
  Claim C4, as stated, fails on whitespace other than the space character: a title with
  a tab between \<^verbatim>\<open>a\<close> and \<^verbatim>\<open>b\<close> keeps the tab and is not turned into \<^verbatim>\<open>a_b\<close>.
\<close>

theorem generate_ffmpeg_commands_keeps_tab:
  "map_sum id (map title)
     (generate_ffmpeg_commands demo_lib demo_env
       [\<lparr>tags_title = Some [CHR ''a'', CHR 0x09, CHR ''b''], start_time = ''0'', end_time = ''1''\<rparr>]
       (Some ''movie.mkv'') [] ''1'' ''16'')
   = Inr [[CHR ''a'', CHR 0x09, CHR ''b'']]
   \<and> [CHR ''a'', CHR 0x09, CHR ''b''] \<noteq> ''a_b''"
  by code_simp

subsection \<open>Reading a log\<close>

lemma universal_newlines_Nil_iff: "universal_newlines s = [] \<longleftrightarrow> s = []"
  by (induction s rule: universal_newlines.induct) auto

lemma lines_from_Nil_iff: "lines_from acc s = [] \<longleftrightarrow> acc = [] \<and> s = []"
  by (induction s arbitrary: acc) auto

lemma readlines_Nil_iff: "readlines content = [] \<longleftrightarrow> content = []"
  by (simp add: readlines_def lines_from_Nil_iff universal_newlines_Nil_iff)

lemma split_from_no_sep: "\<not> sublist sep s \<Longrightarrow> split_from sep acc s = [rev acc @ s]"
  by (induction s arbitrary: acc) (auto simp: sublist_Cons_right)

lemma py_split_no_sep: "\<not> sublist sep s \<Longrightarrow> py_index (py_split sep s) (Suc 0) = Inl IndexError"
  by (simp add: py_split_def split_from_no_sep py_index_def)

lemma split_from_nonempty: "split_from sep acc s \<noteq> []"
  by (induction sep acc s rule: split_from.induct) auto

lemma py_split_first: "\<exists>x. py_index (py_split sep s) 0 = Inr x"
  using split_from_nonempty [of sep "[]" s] by (simp add: py_split_def py_index_def)

lemma parse_log_file_empty:
  assumes "map_of (files w) p = Some content" "readlines content = []"
  shows "parse_log_file w p = Inr (''N/A'', ''00:00:00.00'')"
  using assms by (simp add: parse_log_file_def)

lemma parse_log_file_no_marker:
  assumes "map_of (files w) p = Some content" "readlines content \<noteq> []"
    "\<not> sublist ''fps='' (last (readlines content)) \<or> \<not> sublist ''time='' (last (readlines content))"
  shows "parse_log_file w p = Inl IndexError"
proof (cases "sublist ''fps='' (last (readlines content))")
  case False
  then show ?thesis using assms(1,2)
    by (simp add: parse_log_file_def py_split_no_sep Let_def)
next
  case True
  with assms(3) have t: "\<not> sublist ''time='' (last (readlines content))" by simp
  show ?thesis
  proof (cases "py_index (py_split ''fps='' (last (readlines content))) 1")
    case (Inl err)
    then have "err = IndexError" by (auto simp: py_index_def split: if_splits)
    with Inl show ?thesis using assms(1,2) by (simp add: parse_log_file_def Let_def)
  next
    case (Inr a)
    obtain x where "py_index (py_split '' '' a) 0 = Inr x" using py_split_first by blast
    with Inr t show ?thesis using assms(1,2)
      by (simp add: parse_log_file_def Let_def py_split_no_sep)
  qed
qed

lemma parse_log_file_missing:
  "map_of (files w) p = None \<Longrightarrow> parse_log_file w p = Inl FileNotFoundError"
  by (simp add: parse_log_file_def)

lemma chapter_status_parse_error:
  "parse_log_file w (path_join (get_abs_path e ''log'') (title ch @ ''.log'')) = Inl err
   \<Longrightarrow> chapter_status lib e w ch = Inl err"
  by (simp add: chapter_status_def)

lemma status_loop_member_error:
  "ch \<in> set chs \<Longrightarrow> chapter_status lib e w ch = Inl err
   \<Longrightarrow> \<exists>err'. status_loop lib e w acc chs = Inl err'"
proof (induction chs arbitrary: acc)
  case Nil
  then show ?case by simp
next
  case (Cons c chs)
  show ?case
  proof (cases "chapter_status lib e w c")
    case (Inl a)
    then show ?thesis by simp
  next
    case (Inr r)
    with Cons.prems have "ch \<in> set chs" by auto
    obtain fps te secs where r: "r = (fps, te, secs)" by (cases r) auto
    from Cons.IH [OF \<open>ch \<in> set chs\<close> Cons.prems(2), of "acc + secs"]
    show ?thesis using Inr r by auto
  qed
qed

lemma status_loop_first_error:
  "\<forall>c \<in> set pre. \<exists>r. chapter_status lib e w c = Inr r \<Longrightarrow> chapter_status lib e w ch = Inl err
   \<Longrightarrow> status_loop lib e w acc (pre @ ch # post) = Inl err"
proof (induction pre arbitrary: acc)
  case Nil
  then show ?case by simp
next
  case (Cons c pre)
  then obtain fps te secs where "chapter_status lib e w c = Inr (fps, te, secs)"
    by (metis list.set_intros(1) prod_cases3)
  with Cons show ?case by simp
qed

lemma check_encoding_status_loop_error:
  "status_loop lib e w 0 (chapters info) = Inl err \<Longrightarrow> check_encoding_status lib e w info = Inl err"
  by (simp add: check_encoding_status_def)

lemma main_info_error:
  "get_ffjob_info lib e w = Inr info \<Longrightarrow> check_encoding_status lib e w info = Inl err
   \<Longrightarrow> main lib e input_file svt preset crf True False w = (Some err, w)"
  by (simp add: main_def)


lemma check_encoding_status_member_error:
  assumes "ch \<in> set (chapters info)" "chapter_status lib e w ch = Inl err"
  shows "\<exists>err'. check_encoding_status lib e w info = Inl err'"
proof -
  from status_loop_member_error [OF assms, of 0]
  obtain err' where "status_loop lib e w 0 (chapters info) = Inl err'" by blast
  then show ?thesis by (auto dest: check_encoding_status_loop_error)
qed

lemma check_encoding_status_first_error:
  assumes "chapters info = pre @ ch # post"
    "\<forall>c \<in> set pre. \<exists>r. chapter_status lib e w c = Inr r"
    "chapter_status lib e w ch = Inl err"
  shows "check_encoding_status lib e w info = Inl err"
  using status_loop_first_error [OF assms(2,3), of 0 post] assms(1)
  by (simp add: check_encoding_status_loop_error)

lemma main_info_member_error:
  assumes "get_ffjob_info lib e w = Inr info" "ch \<in> set (chapters info)"
    "chapter_status lib e w ch = Inl err"
  shows "\<exists>err'. main lib e input_file svt preset crf True False w = (Some err', w)"
  using check_encoding_status_member_error [OF assms(2,3)] main_info_error [OF assms(1)]
  by blast

lemma encoded_time_seconds_zero:
  assumes "py_float lib ''00'' = Some 0" "py_float lib ''00.00'' = Some 0"
  shows "encoded_time_seconds lib ''00:00:00.00'' = Inr 0"
  using assms by (simp add: encoded_time_seconds_def py_split_def)

text \<open>
  Claim C6. For a work item whose log file exists and has zero lines, \<open>parse_log_file\<close>
  returns without error the speed \<^verbatim>\<open>"N/A"\<close> (the program's word for an unknown speed) and
  the encoded time \<^verbatim>\<open>"00:00:00.00"\<close>, which the status loop reads as zero seconds. That
  \<^verbatim>\<open>float("00")\<close> and \<^verbatim>\<open>float("00.00")\<close> are zero is what is used of \<open>py_float\<close>.
\<close>

theorem parse_log_file_zero_lines:
  assumes "map_of (files w) (path_join (get_abs_path e ''log'') (title ch @ ''.log'')) = Some content"
    and "readlines content = []"
    and "py_float lib ''00'' = Some 0" and "py_float lib ''00.00'' = Some 0"
  shows "parse_log_file w (path_join (get_abs_path e ''log'') (title ch @ ''.log''))
           = Inr (''N/A'', ''00:00:00.00'')
       \<and> chapter_status lib e w ch = Inr (''N/A'', ''00:00:00.00'', 0)"
  using assms
  by (simp add: chapter_status_def parse_log_file_empty encoded_time_seconds_zero)

text \<open>An empty log file for \<^verbatim>\<open>Part_One\<close>.\<close>

theorem parse_log_file_zero_lines_witness:
  "parse_log_file \<lparr>files = [(''/w/log/Part_One.log'', [])], procs = []\<rparr> ''/w/log/Part_One.log''
     = Inr (''N/A'', ''00:00:00.00'')
   \<and> chapter_status demo_lib demo_env \<lparr>files = [(''/w/log/Part_One.log'', [])], procs = []\<rparr>
        \<lparr>title = ''Part_One'', length_in_seconds = 10, command = []\<rparr>
     = Inr (''N/A'', ''00:00:00.00'', 0)"
proof -
  let ?w = "\<lparr>files = [(''/w/log/Part_One.log'', [])], procs = []\<rparr>"
  let ?ch = "\<lparr>title = ''Part_One'', length_in_seconds = 10, command = []\<rparr>"
  have 0: "path_join (get_abs_path demo_env ''log'') (title ?ch @ ''.log'') = ''/w/log/Part_One.log''"
    by code_simp
  have 1: "map_of (files ?w) (path_join (get_abs_path demo_env ''log'') (title ?ch @ ''.log'')) = Some []"
    unfolding 0 by simp
  have 2: "readlines [] = []"
    by (simp add: readlines_def)
  have 3: "py_float demo_lib ''00'' = Some 0"
    by code_simp
  have 4: "py_float demo_lib ''00.00'' = Some 0"
    by code_simp
  from parse_log_file_zero_lines [OF 1 2 3 4] show ?thesis
    unfolding 0 by simp
qed

text \<open>
  Claim C7. For a work item whose log file has at least one line and whose last line
  does not contain \<^verbatim>\<open>fps=\<close> or does not contain \<^verbatim>\<open>time=\<close>, \<open>parse_log_file\<close> raises
  IndexError. Nothing catches it: the item's pass of the status loop raises it, the status
  report of a ledger in which the items before it parse raises it, the status report of
  any ledger listing the item raises, and so does \<open>main\<close> in status mode.
\<close>

theorem parse_log_file_marker_missing:
  assumes "map_of (files w) (path_join (get_abs_path e ''log'') (title ch @ ''.log'')) = Some content"
    and "readlines content \<noteq> []"
    and "\<not> sublist ''fps='' (last (readlines content))
         \<or> \<not> sublist ''time='' (last (readlines content))"
  shows "parse_log_file w (path_join (get_abs_path e ''log'') (title ch @ ''.log'')) = Inl IndexError
       \<and> chapter_status lib e w ch = Inl IndexError
       \<and> (\<forall>info pre post.
             chapters info = pre @ ch # post
             \<and> (\<forall>c \<in> set pre. \<exists>r. chapter_status lib e w c = Inr r)
             \<longrightarrow> check_encoding_status lib e w info = Inl IndexError)
       \<and> (\<forall>info. ch \<in> set (chapters info)
             \<longrightarrow> (\<exists>err. check_encoding_status lib e w info = Inl err))
       \<and> (\<forall>info input_file svt preset crf.
             get_ffjob_info lib e w = Inr info \<and> ch \<in> set (chapters info)
             \<longrightarrow> (\<exists>err. main lib e input_file svt preset crf True False w = (Some err, w)))"
proof -
  have p: "parse_log_file w (path_join (get_abs_path e ''log'') (title ch @ ''.log'')) = Inl IndexError"
    using assms by (rule parse_log_file_no_marker)
  then have c: "chapter_status lib e w ch = Inl IndexError"
    by (rule chapter_status_parse_error)
  show ?thesis
    using p c check_encoding_status_first_error [where ch = ch and err = IndexError]
      check_encoding_status_member_error [OF _ c] main_info_member_error [OF _ _ c]
    by blast
qed

text \<open>A log whose only line has the speed marker and no time marker.\<close>

theorem parse_log_file_marker_missing_witness:
  "parse_log_file \<lparr>files = [(''/w/log/Part_One.log'', ''frame= 10 fps=25 q=30.0 size=1kB''),
                             (''/w/ffjob.json'', ''{}'')], procs = []\<rparr>
      ''/w/log/Part_One.log'' = Inl IndexError
   \<and> check_encoding_status demo_lib demo_env
        \<lparr>files = [(''/w/log/Part_One.log'', ''frame= 10 fps=25 q=30.0 size=1kB''),
                  (''/w/ffjob.json'', ''{}'')], procs = []\<rparr>
        \<lparr>chapters = [\<lparr>title = ''Part_One'', length_in_seconds = 10, command = []\<rparr>],
         total_length_in_seconds = Some 25, executed_datetime = Some ''2024-01-01 12:00:00''\<rparr>
      = Inl IndexError"
proof -
  let ?w = "\<lparr>files = [(''/w/log/Part_One.log'', ''frame= 10 fps=25 q=30.0 size=1kB''),
                      (''/w/ffjob.json'', ''{}'')], procs = []\<rparr>"
  let ?ch = "\<lparr>title = ''Part_One'', length_in_seconds = 10, command = []\<rparr>"
  let ?info = "\<lparr>chapters = [?ch], total_length_in_seconds = Some 25,
                 executed_datetime = Some ''2024-01-01 12:00:00''\<rparr>"
  have 4: "path_join (get_abs_path demo_env ''log'') (title ?ch @ ''.log'') = ''/w/log/Part_One.log''"
    by code_simp
  have 1: "map_of (files ?w) (path_join (get_abs_path demo_env ''log'') (title ?ch @ ''.log''))
             = Some ''frame= 10 fps=25 q=30.0 size=1kB''"
    unfolding 4 by simp
  have 2: "readlines ''frame= 10 fps=25 q=30.0 size=1kB'' \<noteq> []"
    by (simp add: readlines_def)
  have 3: "\<not> sublist ''fps='' (last (readlines ''frame= 10 fps=25 q=30.0 size=1kB''))
         \<or> \<not> sublist ''time='' (last (readlines ''frame= 10 fps=25 q=30.0 size=1kB''))"
    by code_simp
  from parse_log_file_marker_missing [OF 1 2 3, of demo_lib]
  have "parse_log_file ?w (path_join (get_abs_path demo_env ''log'') (title ?ch @ ''.log'')) = Inl IndexError"
    and "\<forall>info pre post.
             chapters info = pre @ ?ch # post
             \<and> (\<forall>c \<in> set pre. \<exists>r. chapter_status demo_lib demo_env ?w c = Inr r)
             \<longrightarrow> check_encoding_status demo_lib demo_env ?w info = Inl IndexError"
    by blast+
  from this(1) this(2) [rule_format, of ?info "[]" "[]"] show ?thesis
    unfolding 4 by simp
qed

text \<open>
  Claim C9. For a work item whose log file does not exist, \<open>parse_log_file\<close> raises
  FileNotFoundError instead of returning the empty-log default. Nothing catches it: the
  status report of a ledger in which the items before it parse raises it, the status
  report of any ledger listing the item raises, and so does \<open>main\<close> in status mode.
\<close>

theorem parse_log_file_absent:
  assumes "map_of (files w) (path_join (get_abs_path e ''log'') (title ch @ ''.log'')) = None"
  shows "parse_log_file w (path_join (get_abs_path e ''log'') (title ch @ ''.log''))
           = Inl FileNotFoundError
       \<and> chapter_status lib e w ch = Inl FileNotFoundError
       \<and> (\<forall>info pre post.
             chapters info = pre @ ch # post
             \<and> (\<forall>c \<in> set pre. \<exists>r. chapter_status lib e w c = Inr r)
             \<longrightarrow> check_encoding_status lib e w info = Inl FileNotFoundError)
       \<and> (\<forall>info. ch \<in> set (chapters info)
             \<longrightarrow> (\<exists>err. check_encoding_status lib e w info = Inl err))
       \<and> (\<forall>info input_file svt preset crf.
             get_ffjob_info lib e w = Inr info \<and> ch \<in> set (chapters info)
             \<longrightarrow> (\<exists>err. main lib e input_file svt preset crf True False w = (Some err, w)))"
proof -
  have p: "parse_log_file w (path_join (get_abs_path e ''log'') (title ch @ ''.log''))
             = Inl FileNotFoundError"
    using assms by (rule parse_log_file_missing)
  then have c: "chapter_status lib e w ch = Inl FileNotFoundError"
    by (rule chapter_status_parse_error)
  show ?thesis
    using p c check_encoding_status_first_error [where ch = ch and err = FileNotFoundError]
      check_encoding_status_member_error [OF _ c] main_info_member_error [OF _ _ c]
    by blast
qed


text \<open>A working directory with a ledger and no log file.\<close>

theorem parse_log_file_absent_witness:
  "parse_log_file \<lparr>files = [(''/w/ffjob.json'', ''{}'')], procs = []\<rparr> ''/w/log/Part_One.log''
      = Inl FileNotFoundError
   \<and> check_encoding_status demo_lib demo_env \<lparr>files = [(''/w/ffjob.json'', ''{}'')], procs = []\<rparr>
        \<lparr>chapters = [\<lparr>title = ''Part_One'', length_in_seconds = 10, command = []\<rparr>],
         total_length_in_seconds = Some 25, executed_datetime = Some ''2024-01-01 12:00:00''\<rparr>
      = Inl FileNotFoundError"
proof -
  let ?w = "\<lparr>files = [(''/w/ffjob.json'', ''{}'')], procs = []\<rparr>"
  let ?ch = "\<lparr>title = ''Part_One'', length_in_seconds = 10, command = []\<rparr>"
  let ?info = "\<lparr>chapters = [?ch], total_length_in_seconds = Some 25,
                 executed_datetime = Some ''2024-01-01 12:00:00''\<rparr>"
  have 0: "path_join (get_abs_path demo_env ''log'') (title ?ch @ ''.log'') = ''/w/log/Part_One.log''"
    by code_simp
  have 1: "map_of (files ?w) (path_join (get_abs_path demo_env ''log'') (title ?ch @ ''.log'')) = None"
    unfolding 0 by simp
  from parse_log_file_absent [OF 1, of demo_lib]
  have "parse_log_file ?w (path_join (get_abs_path demo_env ''log'') (title ?ch @ ''.log''))
          = Inl FileNotFoundError"
    and "\<forall>info pre post.
             chapters info = pre @ ?ch # post
             \<and> (\<forall>c \<in> set pre. \<exists>r. chapter_status demo_lib demo_env ?w c = Inr r)
             \<longrightarrow> check_encoding_status demo_lib demo_env ?w info = Inl FileNotFoundError"
    by blast+
  from this(1) this(2) [rule_format, of ?info "[]" "[]"] show ?thesis
    unfolding 0 by simp
qed

subsection \<open>Status report\<close>








subsection \<open>Ledger and dispatch\<close>

lemma map_of_fs_write_same: "map_of (fs_write p c fs) p = Some c"
  by (induction fs) auto

lemma map_of_fs_write_other: "q \<noteq> p \<Longrightarrow> map_of (fs_write p c fs) q = map_of fs q"
  by (induction fs) auto

lemma map_of_fs_touch_other: "q \<noteq> p \<Longrightarrow> map_of (fs_touch p fs) q = map_of fs q"
  by (auto simp: fs_touch_def map_add_def split: option.splits)

lemma last_path_join: "b \<noteq> [] \<Longrightarrow> last (path_join a b) = last b"
  by (simp add: path_join_def)

lemma log_path_not_ledger:
  "path_join a (t @ ''.log'') \<noteq> path_join c ''ffjob.json''"
proof
  assume "path_join a (t @ ''.log'') = path_join c ''ffjob.json''"
  then have "last (path_join a (t @ ''.log'')) = last (path_join c ''ffjob.json'')" by simp
  then show False by (simp add: last_path_join)
qed

lemma execute_ffmpeg_command_ledger:
  "map_of (files (execute_ffmpeg_command e c w)) (get_abs_path e ''ffjob.json'')
     = map_of (files w) (get_abs_path e ''ffjob.json'')"
proof -
  have "get_abs_path e ''ffjob.json'' \<noteq> path_join (get_abs_path e ''log'') (title c @ ''.log'')"
    unfolding get_abs_path_def using log_path_not_ledger by metis
  then show ?thesis
    by (simp add: execute_ffmpeg_command_def Let_def map_of_fs_touch_other)
qed

lemma dispatch_all_ledger:
  "map_of (files (dispatch_all e cs w)) (get_abs_path e ''ffjob.json'')
     = map_of (files w) (get_abs_path e ''ffjob.json'')"
  by (induction cs arbitrary: w) (simp_all add: execute_ffmpeg_command_ledger)

lemma procs_execute_ffmpeg_command:
  "procs (execute_ffmpeg_command e c w) =
     procs w @ (if \<not> write_denied e (path_join (get_abs_path e ''log'') (title c @ ''.log''))
                   \<and> \<not> popen_fails e (command c)
                then [(command c, path_join (get_abs_path e ''log'') (title c @ ''.log''))] else [])"
  by (simp add: execute_ffmpeg_command_def Let_def)

lemma procs_dispatch_all:
  "procs (dispatch_all e cs w) =
     procs w @ map (\<lambda>c. (command c, path_join (get_abs_path e ''log'') (title c @ ''.log'')))
       (filter (\<lambda>c. \<not> write_denied e (path_join (get_abs_path e ''log'') (title c @ ''.log''))
                     \<and> \<not> popen_fails e (command c)) cs)"
  by (induction cs arbitrary: w) (simp_all add: procs_execute_ffmpeg_command)

lemma main_dispatch:
  assumes "ensure_directories_exist e = None"
    and "run_ffprobe e input_file = Inr json_output"
    and "py_float lib (format_duration json_output) = Some total_length"
    and "generate_ffmpeg_commands lib e (probe_chapters json_output) input_file svt preset crf
           = Inr ffmpeg_commands"
  shows "main lib e input_file svt preset crf False False w =
           (None, save_ffjob_info lib e
                    \<lparr>chapters = ffmpeg_commands, total_length_in_seconds = None,
                     executed_datetime = None\<rparr>
                    input_file total_length (dispatch_all e ffmpeg_commands w))"
  using assms by (simp add: main_def)

lemma save_ffjob_info_denied:
  "write_denied e (get_abs_path e ''ffjob.json'') \<Longrightarrow> save_ffjob_info lib e info input_file t w = w"
  by (simp add: save_ffjob_info_def)

lemma save_ffjob_info_written:
  "\<not> write_denied e (get_abs_path e ''ffjob.json'')
   \<Longrightarrow> map_of (files (save_ffjob_info lib e info input_file t w)) (get_abs_path e ''ffjob.json'')
      = Some (json_dump lib (info\<lparr>total_length_in_seconds := Some t,
                                   executed_datetime := Some (now_str e)\<rparr>))"
  by (simp add: save_ffjob_info_def map_of_fs_write_same)

lemma procs_save_ffjob_info: "procs (save_ffjob_info lib e info input_file t w) = procs w"
  by (simp add: save_ffjob_info_def)

text \<open>
  Claim C5. When the ledger file can be written, and \<^verbatim>\<open>json.load\<close> reads back what
  \<^verbatim>\<open>json.dump\<close> wrote for the saved dictionary, loading after saving returns the same work
  items (titles, lengths, commands), the total length that was saved and the dispatch time
  stamp that was saved.
\<close>

theorem ledger_round_trip:
  assumes "\<not> write_denied e (get_abs_path e ''ffjob.json'')"
    and "json_load lib (json_dump lib (info\<lparr>total_length_in_seconds := Some total_length,
                                               executed_datetime := Some (now_str e)\<rparr>))
           = Some (info\<lparr>total_length_in_seconds := Some total_length,
                        executed_datetime := Some (now_str e)\<rparr>)"
  shows "\<exists>loaded. get_ffjob_info lib e (save_ffjob_info lib e info input_file total_length w)
                     = Inr loaded
           \<and> chapters loaded = chapters info
           \<and> total_length_in_seconds loaded = Some total_length
           \<and> executed_datetime loaded = Some (now_str e)"
  using assms by (simp add: get_ffjob_info_def save_ffjob_info_written)

text \<open>
  Claim C10. When the ledger file cannot be written, and the dispatch gets as far as the
  work items, \<open>main\<close> still returns normally. The world it leaves is the one after the launch
  loop: the ledger path holds what it held before the run, and the processes started are
  those of every work item whose log could be opened and whose command could be started.
\<close>

theorem save_failure_not_fatal:
  assumes "write_denied e (get_abs_path e ''ffjob.json'')"
    and "ensure_directories_exist e = None"
    and "run_ffprobe e input_file = Inr json_output"
    and "py_float lib (format_duration json_output) = Some total_length"
    and "generate_ffmpeg_commands lib e (probe_chapters json_output) input_file svt preset crf
           = Inr ffmpeg_commands"
  shows "main lib e input_file svt preset crf False False w = (None, dispatch_all e ffmpeg_commands w)
       \<and> map_of (files (snd (main lib e input_file svt preset crf False False w)))
             (get_abs_path e ''ffjob.json'')
           = map_of (files w) (get_abs_path e ''ffjob.json'')
       \<and> procs (snd (main lib e input_file svt preset crf False False w))
           = procs w @ map (\<lambda>c. (command c, path_join (get_abs_path e ''log'') (title c @ ''.log'')))
               (filter (\<lambda>c. \<not> write_denied e (path_join (get_abs_path e ''log'') (title c @ ''.log''))
                             \<and> \<not> popen_fails e (command c)) ffmpeg_commands)"
proof -
  have m: "main lib e input_file svt preset crf False False w = (None, dispatch_all e ffmpeg_commands w)"
    using main_dispatch [OF assms(2-5)] save_ffjob_info_denied [OF assms(1)] by simp
  show ?thesis
    unfolding m by (simp add: dispatch_all_ledger procs_dispatch_all)
qed

text \<open>
  Claim C1, as the code has it. When the metadata lists no chapter (and the directories
  are ready, the tool answers, and the duration is a number), the dispatch does not fail:
  \<open>main\<close> returns normally, starts no process, and writes a ledger with an empty chapter
  list, the total length and the time stamp whenever the ledger file can be written.
\<close>

theorem dispatch_zero_chapters:
  assumes "ensure_directories_exist e = None"
    and "run_ffprobe e input_file = Inr json_output"
    and "probe_chapters json_output = []"
    and "py_float lib (format_duration json_output) = Some total_length"
  shows "fst (main lib e input_file svt preset crf False False w) = None
       \<and> procs (snd (main lib e input_file svt preset crf False False w)) = procs w
       \<and> (\<not> write_denied e (get_abs_path e ''ffjob.json'')
            \<longrightarrow> map_of (files (snd (main lib e input_file svt preset crf False False w)))
                   (get_abs_path e ''ffjob.json'')
                 = Some (json_dump lib \<lparr>chapters = [], total_length_in_seconds = Some total_length,
                                         executed_datetime = Some (now_str e)\<rparr>))"
proof -
  have g: "generate_ffmpeg_commands lib e (probe_chapters json_output) input_file svt preset crf = Inr []"
    using assms(3) by simp
  have m: "main lib e input_file svt preset crf False False w =
           (None, save_ffjob_info lib e
                    \<lparr>chapters = [], total_length_in_seconds = None, executed_datetime = None\<rparr>
                    input_file total_length w)"
    using main_dispatch [OF assms(1,2,4) g, of w] by simp
  show ?thesis
    unfolding m by (simp add: procs_save_ffjob_info save_ffjob_info_written)
qed


text \<open>Saving and loading the two-chapter ledger.\<close>

theorem ledger_round_trip_witness:
  "\<exists>loaded. get_ffjob_info demo_lib demo_env
        (save_ffjob_info demo_lib demo_env
           \<lparr>chapters = [\<lparr>title = ''Part_One'', length_in_seconds = 10, command = [''ffmpeg'']\<rparr>,
                        \<lparr>title = ''Part_Two'', length_in_seconds = 15, command = [''ffmpeg'']\<rparr>],
            total_length_in_seconds = None, executed_datetime = None\<rparr>
           (Some ''movie.mkv'') 25 \<lparr>files = [], procs = []\<rparr>)
      = Inr loaded
    \<and> chapters loaded = [\<lparr>title = ''Part_One'', length_in_seconds = 10, command = [''ffmpeg'']\<rparr>,
                          \<lparr>title = ''Part_Two'', length_in_seconds = 15, command = [''ffmpeg'']\<rparr>]
    \<and> total_length_in_seconds loaded = Some 25
    \<and> executed_datetime loaded = Some ''2024-01-01 12:00:00''"
proof -
  let ?info = "\<lparr>chapters = [\<lparr>title = ''Part_One'', length_in_seconds = 10, command = [''ffmpeg'']\<rparr>,
                        \<lparr>title = ''Part_Two'', length_in_seconds = 15, command = [''ffmpeg'']\<rparr>],
            total_length_in_seconds = None, executed_datetime = None\<rparr>"
  have 1: "\<not> write_denied demo_env (get_abs_path demo_env ''ffjob.json'')"
    by (simp add: demo_env_def)
  have d: "?info\<lparr>total_length_in_seconds := Some 25,
                  executed_datetime := Some (now_str demo_env)\<rparr> = demo_ledger"
    by (simp add: demo_ledger_def demo_env_def)
  have 2: "json_load demo_lib (json_dump demo_lib (?info\<lparr>total_length_in_seconds := Some 25,
                  executed_datetime := Some (now_str demo_env)\<rparr>))
           = Some (?info\<lparr>total_length_in_seconds := Some 25,
                  executed_datetime := Some (now_str demo_env)\<rparr>)"
    unfolding d by (simp add: demo_lib_def)
  have n: "now_str demo_env = ''2024-01-01 12:00:00''" by (simp add: demo_env_def)
  from ledger_round_trip [OF 1 2, of "Some ''movie.mkv''" "\<lparr>files = [], procs = []\<rparr>"]
  show ?thesis unfolding n by simp
qed

text \<open>
  Claim C1, as stated, fails: on a source without chapters the dispatch returns normally
  (there is no \<^verbatim>\<open>NoChaptersFound\<close>) and leaves a ledger behind.
\<close>

theorem dispatch_zero_chapters_persists_ledger:
  "main demo_lib
     (demo_probe_env \<lparr>probe_chapters = [], format_duration = ''25.000000''\<rparr>)
     (Some ''movie.mkv'') [] ''1'' ''16'' False False \<lparr>files = [], procs = []\<rparr>
   = (None,
      \<lparr>files = [(''/w/ffjob.json'',
                 json_dump demo_lib \<lparr>chapters = [], total_length_in_seconds = Some 25,
                                      executed_datetime = Some ''2024-01-01 12:00:00''\<rparr>)],
       procs = []\<rparr>)"
  by code_simp


text \<open>A source of 25 seconds without chapters.\<close>

theorem dispatch_zero_chapters_witness:
  "fst (main demo_lib
          (demo_probe_env \<lparr>probe_chapters = [], format_duration = ''25.000000''\<rparr>)
          (Some ''movie.mkv'') [] ''1'' ''16'' False False \<lparr>files = [(''/w/notes.txt'', ''x'')], procs = []\<rparr>)
     = None
   \<and> procs (snd (main demo_lib
          (demo_probe_env \<lparr>probe_chapters = [], format_duration = ''25.000000''\<rparr>)
          (Some ''movie.mkv'') [] ''1'' ''16'' False False \<lparr>files = [(''/w/notes.txt'', ''x'')], procs = []\<rparr>))
     = []
   \<and> map_of (files (snd (main demo_lib
          (demo_probe_env \<lparr>probe_chapters = [], format_duration = ''25.000000''\<rparr>)
          (Some ''movie.mkv'') [] ''1'' ''16'' False False \<lparr>files = [(''/w/notes.txt'', ''x'')], procs = []\<rparr>)))
        ''/w/ffjob.json''
     = Some (json_dump demo_lib \<lparr>chapters = [], total_length_in_seconds = Some 25,
                                  executed_datetime = Some ''2024-01-01 12:00:00''\<rparr>)"
proof -
  let ?out = "\<lparr>probe_chapters = [], format_duration = ''25.000000''\<rparr>"
  let ?e = "demo_probe_env ?out"
  have 1: "ensure_directories_exist ?e = None"
    by (simp add: ensure_directories_exist_def demo_probe_env_def demo_env_def)
  have 2: "run_ffprobe ?e (Some ''movie.mkv'') = Inr ?out"
    by (simp add: run_ffprobe_def demo_probe_env_def)
  have 3: "probe_chapters ?out = []" by simp
  have 4: "py_float demo_lib (format_duration ?out) = Some 25" by code_simp
  have p: "get_abs_path ?e ''ffjob.json'' = ''/w/ffjob.json''" by code_simp
  have w: "\<not> write_denied ?e ''/w/ffjob.json''" by (simp add: demo_probe_env_def demo_env_def)
  have n: "now_str ?e = ''2024-01-01 12:00:00''" by (simp add: demo_probe_env_def demo_env_def)
  from dispatch_zero_chapters [OF 1 2 3 4, of "[]" "''1''" "''16''"
      "\<lparr>files = [(''/w/notes.txt'', ''x'')], procs = []\<rparr>"]
  show ?thesis unfolding p n using w by simp
qed

text \<open>One chapter, a ledger path that refuses writes: the job runs and no ledger exists.\<close>

theorem save_failure_not_fatal_witness:
  "fst (main demo_lib
          (demo_env\<lparr>write_denied := (\<lambda>p. p = ''/w/ffjob.json''),
                    ffprobe := (\<lambda>p. Some \<lparr>probe_chapters =
                        [\<lparr>tags_title = Some ''Part One'', start_time = ''0.000000'',
                          end_time = ''10.000000''\<rparr>],
                      format_duration = ''25.000000''\<rparr>)\<rparr>)
          (Some ''movie.mkv'') [] ''1'' ''16'' False False \<lparr>files = [], procs = []\<rparr>)
     = None
   \<and> map_of (files (snd (main demo_lib
          (demo_env\<lparr>write_denied := (\<lambda>p. p = ''/w/ffjob.json''),
                    ffprobe := (\<lambda>p. Some \<lparr>probe_chapters =
                        [\<lparr>tags_title = Some ''Part One'', start_time = ''0.000000'',
                          end_time = ''10.000000''\<rparr>],
                      format_duration = ''25.000000''\<rparr>)\<rparr>)
          (Some ''movie.mkv'') [] ''1'' ''16'' False False \<lparr>files = [], procs = []\<rparr>)))
        ''/w/ffjob.json''
     = None
   \<and> map snd (procs (snd (main demo_lib
          (demo_env\<lparr>write_denied := (\<lambda>p. p = ''/w/ffjob.json''),
                    ffprobe := (\<lambda>p. Some \<lparr>probe_chapters =
                        [\<lparr>tags_title = Some ''Part One'', start_time = ''0.000000'',
                          end_time = ''10.000000''\<rparr>],
                      format_duration = ''25.000000''\<rparr>)\<rparr>)
          (Some ''movie.mkv'') [] ''1'' ''16'' False False \<lparr>files = [], procs = []\<rparr>)))
     = [''/w/log/Part_One.log'']"
proof -
  let ?ch = "\<lparr>tags_title = Some ''Part One'', start_time = ''0.000000'', end_time = ''10.000000''\<rparr>"
  let ?out = "\<lparr>probe_chapters = [?ch], format_duration = ''25.000000''\<rparr>"
  let ?e = "demo_env\<lparr>write_denied := (\<lambda>p. p = ''/w/ffjob.json''), ffprobe := (\<lambda>p. Some ?out)\<rparr>"
  let ?item = "\<lparr>title = ''Part_One'', length_in_seconds = 10,
                 command = base_command ?e ?ch ''movie.mkv'' [] ''1'' ''16'' ''/w/tmp/Part_One.mkv''\<rparr>"
  have p: "get_abs_path ?e ''ffjob.json'' = ''/w/ffjob.json''" by code_simp
  have l: "path_join (get_abs_path ?e ''log'') ''Part_One.log'' = ''/w/log/Part_One.log''"
    by code_simp
  have 1: "write_denied ?e (get_abs_path ?e ''ffjob.json'')" unfolding p by simp
  have 2: "ensure_directories_exist ?e = None" by code_simp
  have 3: "run_ffprobe ?e (Some ''movie.mkv'') = Inr ?out" by (simp add: run_ffprobe_def)
  have 4: "py_float demo_lib (format_duration ?out) = Some 25" by code_simp
  have 5: "generate_ffmpeg_commands demo_lib ?e (probe_chapters ?out) (Some ''movie.mkv'') [] ''1'' ''16''
             = Inr [?item]"
    by code_simp
  have d: "\<not> write_denied ?e ''/w/log/Part_One.log''" by simp
  have f: "\<not> popen_fails ?e c" for c by (simp add: demo_env_def)
  note r = save_failure_not_fatal [OF 1 2 3 4 5, of "\<lparr>files = [], procs = []\<rparr>"]
  have a: "fst (main demo_lib ?e (Some ''movie.mkv'') [] ''1'' ''16'' False False
                  \<lparr>files = [], procs = []\<rparr>) = None"
    using r [THEN conjunct1] by simp
  have b: "map_of (files (snd (main demo_lib ?e (Some ''movie.mkv'') [] ''1'' ''16'' False False
                  \<lparr>files = [], procs = []\<rparr>))) ''/w/ffjob.json'' = None"
    using r [THEN conjunct2, THEN conjunct1] unfolding p by simp
  have c: "map snd (procs (snd (main demo_lib ?e (Some ''movie.mkv'') [] ''1'' ''16'' False False
                  \<lparr>files = [], procs = []\<rparr>))) = [''/w/log/Part_One.log'']"
    using r [THEN conjunct2, THEN conjunct2] l d f by simp
  from a b c show ?thesis by (intro conjI)
qed

subsection \<open>Concatenation manifest\<close>

lemma append_le_append_iff: "(p @ a \<le> p @ b) \<longleftrightarrow> (a \<le> b)" for a b :: "'a::linorder list"
  by (induction p) auto

lemma sorted_drop_common_prefix:
  fixes xs :: "'a::linorder list list"
  assumes "sorted xs" "\<forall>x \<in> set xs. prefix d x"
  shows "sorted (map (drop (length d)) xs)"
  using assms
proof (induction xs)
  case Nil
  then show ?case by simp
next
  case (Cons x xs)
  from Cons.prems obtain x' where x: "x = d @ x'" by (auto simp: prefix_def)
  have "drop (length d) x \<le> drop (length d) y" if "y \<in> set xs" for y
  proof -
    from that Cons.prems obtain y' where y: "y = d @ y'" by (auto simp: prefix_def)
    from that Cons.prems(1) have "x \<le> y" by simp
    then show ?thesis unfolding x y by (simp add: append_le_append_iff)
  qed
  with Cons show ?case by simp
qed

text \<open>
  What holds of the manifest for every \<open>glob\<close>: it lists the paths that \<open>glob\<close> returned for
  the absolute pattern, each as often as returned, sorted as strings, in the same order
  however they were enumerated; and one line \<^verbatim>\<open>file '<absolute path>'\<close> per path.
\<close>

lemma chapter_files_sorted: "sorted (chapter_files lib e w)"
  by (simp add: chapter_files_def)

lemma chapter_files_mset:
  "mset (chapter_files lib e w)
     = mset (glob lib (cwd e) (files w) (path_join (get_abs_path e ''tmp'') ''*.mkv''))"
  by (simp add: chapter_files_def)

lemma chapter_files_order_independent:
  assumes "mset (glob lib' (cwd e) (files w') (path_join (get_abs_path e ''tmp'') ''*.mkv''))
             = mset (glob lib (cwd e) (files w) (path_join (get_abs_path e ''tmp'') ''*.mkv''))"
  shows "chapter_files lib' e w' = chapter_files lib e w"
  using assms unfolding chapter_files_def by (intro properties_for_sort) simp_all

lemma concatenate_chapters_manifest:
  assumes "\<not> write_denied e (path_join (get_abs_path e ''tmp'') ''concat.txt'')"
  shows "map_of (files (snd (concatenate_chapters lib e w)))
           (path_join (get_abs_path e ''tmp'') ''concat.txt'')
         = Some (concat (map (\<lambda>file_path. ''file '' @ [CHR 0x27] @ abspath e file_path
                                              @ [CHR 0x27, CHR 0x0A])
                           (chapter_files lib e w)))"
  using assms
  by (simp add: concatenate_chapters_def manifest_line_def Let_def map_of_fs_write_same
      split: option.splits)

text \<open>
  The order is the order of the file names as long as every path that \<open>glob\<close> returned lies
  directly in the \<^verbatim>\<open>tmp\<close> directory of the working directory.
\<close>

lemma chapter_files_sorted_by_name:
  assumes "\<forall>p \<in> set (glob lib (cwd e) (files w) (path_join (get_abs_path e ''tmp'') ''*.mkv'')).
             prefix (get_abs_path e ''tmp'' @ ''/'') p"
  shows "sorted (map (drop (length (get_abs_path e ''tmp'') + 1)) (chapter_files lib e w))"
proof -
  have "\<forall>p \<in> set (chapter_files lib e w). prefix (get_abs_path e ''tmp'' @ ''/'') p"
    using assms by (simp add: chapter_files_def)
  with chapter_files_sorted
  have "sorted (map (drop (length (get_abs_path e ''tmp'' @ ''/''))) (chapter_files lib e w))"
    by (rule sorted_drop_common_prefix)
  then show ?thesis by simp
qed

text \<open>
  In a working directory \<^verbatim>\<open>/w\<close>: three outputs, a hidden file and a text file, enumerated
  out of order. The manifest has the three outputs in the order of their names.
\<close>

lemma concatenate_chapters_plain_directory:
  "concatenate_chapters demo_lib demo_env
     \<lparr>files = [(''/w/tmp/Part_Two.mkv'', ''2''), (''/w/tmp/Intro.mkv'', ''0''),
               (''/w/tmp/.Part_Two.mkv.part'', []), (''/w/tmp/notes.txt'', []),
               (''/w/tmp/Part_One.mkv'', ''1'')],
      procs = []\<rparr>
   = (None,
      \<lparr>files = [(''/w/tmp/Part_Two.mkv'', ''2''), (''/w/tmp/Intro.mkv'', ''0''),
                (''/w/tmp/.Part_Two.mkv.part'', []), (''/w/tmp/notes.txt'', []),
                (''/w/tmp/Part_One.mkv'', ''1''),
                (''/w/tmp/concat.txt'',
                 ''file '' @ [CHR 0x27] @ ''/w/tmp/Intro.mkv'' @ [CHR 0x27, CHR 0x0A]
                 @ ''file '' @ [CHR 0x27] @ ''/w/tmp/Part_One.mkv'' @ [CHR 0x27, CHR 0x0A]
                 @ ''file '' @ [CHR 0x27] @ ''/w/tmp/Part_Two.mkv'' @ [CHR 0x27, CHR 0x0A])],
       procs = []\<rparr>)"
  by code_simp

text \<open>
  Claim C8 in a working directory whose name \<^verbatim>\<open>glob\<close> reads as a pattern. The absolute
  path of \<^verbatim>\<open>tmp\<close> is handed to \<^verbatim>\<open>glob\<close> unescaped. In \<^verbatim>\<open>/w[1]\<close>, holding one chapter
  output, the relative pattern of \<open>verify_chapter_files\<close> finds the output, and the absolute
  pattern of \<open>concatenate_chapters\<close> finds nothing, so the manifest is empty. In \<^verbatim>\<open>/w*\<close>,
  beside a directory \<^verbatim>\<open>/w1\<close>, the manifest lists the output of \<^verbatim>\<open>/w1\<close> too, and the file
  names \<^verbatim>\<open>b.mkv\<close>, \<^verbatim>\<open>a.mkv\<close> are not in lexicographic order.
\<close>

theorem concatenate_chapters_magic_directory:
  "verify_chapter_files demo_lib (demo_env\<lparr>cwd := ''/w[1]''\<rparr>)
       \<lparr>files = [(''/w[1]/tmp/Part_One.mkv'', ''video'')], procs = []\<rparr>
     = None
   \<and> chapter_files demo_lib (demo_env\<lparr>cwd := ''/w[1]''\<rparr>)
       \<lparr>files = [(''/w[1]/tmp/Part_One.mkv'', ''video'')], procs = []\<rparr>
     = []
   \<and> concatenate_chapters demo_lib (demo_env\<lparr>cwd := ''/w[1]''\<rparr>)
       \<lparr>files = [(''/w[1]/tmp/Part_One.mkv'', ''video'')], procs = []\<rparr>
     = (None, \<lparr>files = [(''/w[1]/tmp/Part_One.mkv'', ''video''), (''/w[1]/tmp/concat.txt'', [])],
               procs = []\<rparr>)
   \<and> chapter_files demo_lib (demo_env\<lparr>cwd := ''/w*''\<rparr>)
       \<lparr>files = [(''/w*/tmp/b.mkv'', ''video''), (''/w1/tmp/a.mkv'', ''video'')], procs = []\<rparr>
     = [''/w*/tmp/b.mkv'', ''/w1/tmp/a.mkv'']
   \<and> map_of (files (snd (concatenate_chapters demo_lib (demo_env\<lparr>cwd := ''/w*''\<rparr>)
       \<lparr>files = [(''/w*/tmp/b.mkv'', ''video''), (''/w1/tmp/a.mkv'', ''video'')], procs = []\<rparr>)))
       ''/w*/tmp/concat.txt''
     = Some (''file '' @ [CHR 0x27] @ ''/w*/tmp/b.mkv'' @ [CHR 0x27, CHR 0x0A]
             @ ''file '' @ [CHR 0x27] @ ''/w1/tmp/a.mkv'' @ [CHR 0x27, CHR 0x0A])"
  by code_simp

subsection \<open>Finalize mode and cleanup\<close>

lemma abspath_ignores_reply: "abspath (e\<lparr>stdin_line := r\<rparr>) p = abspath e p"
  by (simp add: abspath_def)

lemma chapter_files_ignores_reply:
  "chapter_files lib (e\<lparr>stdin_line := r\<rparr>) w = chapter_files lib e w"
  by (simp add: chapter_files_def get_abs_path_def)

lemma verify_chapter_files_ignores_reply:
  "verify_chapter_files lib (e\<lparr>stdin_line := r\<rparr>) w = verify_chapter_files lib e w"
  by (simp add: verify_chapter_files_def)

lemma concatenate_chapters_ignores_reply:
  "concatenate_chapters lib (e\<lparr>stdin_line := r\<rparr>) w = concatenate_chapters lib e w"
  by (simp add: concatenate_chapters_def chapter_files_ignores_reply abspath_ignores_reply
      get_abs_path_def Let_def split: option.splits)

lemma run_vmaf_ignores_reply:
  "run_vmaf (e\<lparr>stdin_line := r\<rparr>) f g = run_vmaf e f g"
  by (simp add: run_vmaf_def split: option.splits)

lemmas finalize_steps_ignore_reply =
  verify_chapter_files_ignores_reply concatenate_chapters_ignores_reply run_vmaf_ignores_reply

lemma user_confirmation_reply:
  "\<exists>b. user_confirmation (e\<lparr>stdin_line := Some line\<rparr>) = Inr b"
  by (auto simp: user_confirmation_def Let_def)

text \<open>
  In finalize mode the reply to the cleanup prompt changes nothing: both branches of the
  confirmation leave the world as concatenation left it.
\<close>

lemma main_complete_ignores_reply:
  "main lib (e\<lparr>stdin_line := Some yes\<rparr>) input_file svt preset crf info True w
     = main lib (e\<lparr>stdin_line := Some no\<rparr>) input_file svt preset crf info True w"
proof -
  obtain a where a: "user_confirmation (e\<lparr>stdin_line := Some yes\<rparr>) = Inr a"
    using user_confirmation_reply by blast
  obtain b where b: "user_confirmation (e\<lparr>stdin_line := Some no\<rparr>) = Inr b"
    using user_confirmation_reply by blast
  show ?thesis
    by (simp add: main_def finalize_steps_ignore_reply a b
        split: option.splits prod.splits sum.splits)
qed

text \<open>
  Claim C2 at a confirmed cleanup. The user answers \<^verbatim>\<open>yes\<close> in a working directory with one
  chapter output, its log and a ledger. \<open>main\<close> returns normally and every one of them is
  still there (only the manifest was added): the call of \<open>cleanup_directories\<close> is commented
  out. Run on that state, \<open>cleanup_directories\<close> would have removed the log, the files under
  \<^verbatim>\<open>tmp\<close> and the ledger.
\<close>

theorem finalize_confirmed_keeps_state:
  "user_confirmation demo_env = Inr True
   \<and> main demo_lib demo_env (Some ''movie.mkv'') [] ''1'' ''16'' False True
        \<lparr>files = [(''/w/tmp/Part_One.mkv'', ''video''),
                  (''/w/log/Part_One.log'', ''frame= 1 fps=25 time=00:00:10.00 ''),
                  (''/w/ffjob.json'', ''{demo ledger}'')],
         procs = []\<rparr>
     = (None,
        \<lparr>files = [(''/w/tmp/Part_One.mkv'', ''video''),
                  (''/w/log/Part_One.log'', ''frame= 1 fps=25 time=00:00:10.00 ''),
                  (''/w/ffjob.json'', ''{demo ledger}''),
                  (''/w/tmp/concat.txt'', manifest_line ''/w/tmp/Part_One.mkv'')],
         procs = []\<rparr>)
   \<and> cleanup_directories demo_env
        \<lparr>files = [(''/w/tmp/Part_One.mkv'', ''video''),
                  (''/w/log/Part_One.log'', ''frame= 1 fps=25 time=00:00:10.00 ''),
                  (''/w/ffjob.json'', ''{demo ledger}''),
                  (''/w/tmp/concat.txt'', manifest_line ''/w/tmp/Part_One.mkv'')],
         procs = []\<rparr>
     = \<lparr>files = [], procs = []\<rparr>"
  by code_simp

end
